theory Spec2Isabelle
  imports Main "HOL-Library.Word"
begin

unbundle bit_operations_syntax

section \<open>Device support for the HP E1368A card (devHpe1368a.c)\<close>

text \<open>
  The file binds four record kinds (bi, bo, mbbi, mbbo) to the driver of one VME card.
  Each entry point takes a pointer to a record, may call the driver, may report to the
  record runtime, and returns a status of type \<open>long\<close>. The model passes the record and
  the world (hardware, driver calls made, errors reported) explicitly and returns both.
\<close>

subsection \<open>Machine types\<close>

text \<open>
  The targets of this file are 32-bit (\<open>int\<close> and \<open>long\<close> are both 32 bits wide,
  \<open>short\<close> is 16 bits wide). A signed type is a word read with \<open>sint\<close>, an unsigned one
  a word read with \<open>unat\<close> or \<open>uint\<close>; the conversion between \<open>short\<close> and
  \<open>unsigned short\<close>, and between \<open>unsigned\<close> and \<open>unsigned long\<close>, keeps the bits.
\<close>

type_synonym short = "16 word"
type_synonym ushort = "16 word"
type_synonym unsigned = "32 word"
type_synonym ulong = "32 word"
type_synonym long = "32 word"

text \<open>
  \<open>m <<= n\<close> on an \<open>unsigned long\<close>, with the count promoted to \<open>int\<close>. C defines the
  result only for a count from 0 to 31; a count outside that range is undefined
  behaviour, which is the value \<open>None\<close> here.
\<close>

definition shift_left_assign :: "ulong \<Rightarrow> int \<Rightarrow> ulong option" where
  "shift_left_assign m n =
     (if 0 \<le> n \<and> n < 32 then Some (push_bit (nat n) m) else None)"

text \<open>The signal numbers for which the shifts of the init routines are defined.\<close>

definition valid_signal :: "short \<Rightarrow> bool" where
  "valid_signal s \<longleftrightarrow> 0 \<le> sint s \<and> sint s < 32"

subsection \<open>Links and records\<close>

text \<open>
  \<open>struct vmeio\<close> and \<open>struct link\<close> are declared in link.h, the four record structs in
  biRecord.h, boRecord.h, mbbiRecord.h and mbboRecord.h; none of these headers is part
  of the file. The records below have the fields that devHpe1368a.c reads or writes.
  A link is a type tag and a union; \<open>value\<close> is that union seen as a \<open>struct vmeio\<close>,
  which is how every routine of the file accesses it (the read and write routines do so
  without looking at the tag).
\<close>

record vmeio =
  card :: short
  signal :: short

record link =
  type :: short
  "value" :: vmeio

text \<open>
  The alarm conditions and severities of alarm.h. The file names \<open>READ_ALARM\<close>,
  \<open>WRITE_ALARM\<close> and \<open>INVALID_ALARM\<close>.
\<close>

datatype alarm_condition = READ_ALARM | WRITE_ALARM

datatype alarm_severity = NO_ALARM | MINOR_ALARM | MAJOR_ALARM | INVALID_ALARM

text \<open>
  The part that all records share. \<open>alarms\<close> holds the alarms raised on the record
  with \<open>recGblSetSevr\<close>, oldest first.
\<close>

record dbCommon =
  alarms :: "(alarm_condition \<times> alarm_severity) list"

record biRecord = dbCommon +
  inp :: link
  mask :: ulong
  rval :: ulong

record boRecord = dbCommon +
  out :: link
  mask :: ulong
  rval :: ulong
  rbv :: ulong

record mbbiRecord = dbCommon +
  inp :: link
  mask :: ulong
  shft :: ushort
  rval :: ulong

record mbboRecord = dbCommon +
  out :: link
  mask :: ulong
  shft :: ushort
  rval :: ulong
  rbv :: ulong

subsection \<open>The world outside the file\<close>

text \<open>
  What the file does to its surroundings: the state of the hardware behind the driver
  (of any type \<open>'hw\<close>), the driver calls made so far and the errors reported so far with
  \<open>recGblRecordError\<close>, both oldest first.
\<close>

datatype driver_call =
  Bi_driver_call short ulong
| Bo_driver_call short ulong ulong

record 'hw world =
  hw :: 'hw
  driver_calls :: "driver_call list"
  errors :: "(long \<times> string) list"

text \<open>
  The parts of other files that devHpe1368a.c uses and that are taken as parameters:
  the value of the macro \<open>VME_IO\<close> (link.h), the value of the macro \<open>S_db_badField\<close>
  (dbAccess.h), and the two driver routines (drvHpe1368a.h). \<open>bi_driver\<close> takes the card
  and the mask and gives a status and the value it stores through its third argument;
  \<open>bo_driver\<close> takes the card, the value and the mask and gives a status. Both may
  change the hardware.
\<close>

record 'hw externals =
  VME_IO :: short
  S_db_badField :: long
  bi_driver :: "short \<Rightarrow> ulong \<Rightarrow> 'hw \<Rightarrow> (long \<times> unsigned) \<times> 'hw"
  bo_driver :: "short \<Rightarrow> ulong \<Rightarrow> ulong \<Rightarrow> 'hw \<Rightarrow> long \<times> 'hw"

definition hpe1368a_bi_driver ::
  "'hw externals \<Rightarrow> short \<Rightarrow> ulong \<Rightarrow> 'hw world \<Rightarrow> (long \<times> unsigned) \<times> 'hw world" where
  "hpe1368a_bi_driver X c m w =
     (let (r, h) = bi_driver X c m (hw w)
      in (r, w\<lparr>hw := h, driver_calls := driver_calls w @ [Bi_driver_call c m]\<rparr>))"

definition hpe1368a_bo_driver ::
  "'hw externals \<Rightarrow> short \<Rightarrow> ulong \<Rightarrow> ulong \<Rightarrow> 'hw world \<Rightarrow> long \<times> 'hw world" where
  "hpe1368a_bo_driver X c v m w =
     (let (status, h) = bo_driver X c v m (hw w)
      in (status, w\<lparr>hw := h, driver_calls := driver_calls w @ [Bo_driver_call c v m]\<rparr>))"

text \<open>
  Modelled from the spec: \<open>recGblRecordError\<close> belongs to the record runtime and is not
  in the file. The spec says that the configuration error is reported once to the
  runtime's error log; the call adds its status and message to that log.
\<close>

definition recGblRecordError :: "long \<Rightarrow> string \<Rightarrow> 'hw world \<Rightarrow> 'hw world" where
  "recGblRecordError status msg w = w\<lparr>errors := errors w @ [(status, msg)]\<rparr>"

text \<open>
  Modelled from the spec: \<open>recGblSetSevr\<close> belongs to the record runtime and is not in
  the file. The spec says that a failure surfaces as a read or write alarm of invalid
  severity on the record; the call adds the condition and severity it is given to the
  alarms raised on the record and changes no other field.
\<close>

definition recGblSetSevr ::
  "'a dbCommon_scheme \<Rightarrow> alarm_condition \<Rightarrow> alarm_severity \<Rightarrow> 'a dbCommon_scheme" where
  "recGblSetSevr prec cond sevr = prec\<lparr>alarms := alarms prec @ [(cond, sevr)]\<rparr>"

subsection \<open>Binary input\<close>

definition init_bi ::
  "'hw externals \<Rightarrow> biRecord \<Rightarrow> 'hw world \<Rightarrow> (long \<times> biRecord \<times> 'hw world) option" where
  "init_bi X pbi w =
     (if type (biRecord.inp pbi) = VME_IO X then
        (let pvmeio = value (biRecord.inp pbi);
             pbi1 = pbi\<lparr>biRecord.mask := 1\<rparr>
         in case shift_left_assign (biRecord.mask pbi1) (sint (signal pvmeio)) of
              None \<Rightarrow> None
            | Some m \<Rightarrow> Some (0, pbi1\<lparr>biRecord.mask := m\<rparr>, w))
      else
        Some (S_db_badField X, pbi,
              recGblRecordError (S_db_badField X)
                ''devBiHpe1368a (init_record) Illegal INP field'' w))"

definition read_bi ::
  "'hw externals \<Rightarrow> biRecord \<Rightarrow> 'hw world \<Rightarrow> long \<times> biRecord \<times> 'hw world" where
  "read_bi X pbi w =
     (let pvmeio = value (biRecord.inp pbi);
          ((status, v), w') = hpe1368a_bi_driver X (vmeio.card pvmeio) (biRecord.mask pbi) w
      in if status = 0 then (status, pbi\<lparr>biRecord.rval := v\<rparr>, w')
         else (status, recGblSetSevr pbi READ_ALARM INVALID_ALARM, w'))"

subsection \<open>Binary output\<close>

definition init_bo ::
  "'hw externals \<Rightarrow> boRecord \<Rightarrow> 'hw world \<Rightarrow> (long \<times> boRecord \<times> 'hw world) option" where
  "init_bo X pbo w =
     (if type (boRecord.out pbo) = VME_IO X then
        (let pvmeio = value (boRecord.out pbo);
             pbo1 = pbo\<lparr>boRecord.mask := 1\<rparr>
         in case shift_left_assign (boRecord.mask pbo1) (sint (signal pvmeio)) of
              None \<Rightarrow> None
            | Some m \<Rightarrow>
                (let pbo2 = pbo1\<lparr>boRecord.mask := m\<rparr>;
                     ((status, v), w') =
                        hpe1368a_bi_driver X (vmeio.card pvmeio) (boRecord.mask pbo2) w
                 in if status = 0
                    then Some (status, pbo2\<lparr>boRecord.rval := v, boRecord.rbv := v\<rparr>, w')
                    else Some (status, pbo2, w')))
      else
        (let status = S_db_badField X
         in Some (status, pbo,
                  recGblRecordError status
                    ''devBoHpe1368a (init_record) Illegal OUT field'' w)))"

definition write_bo ::
  "'hw externals \<Rightarrow> boRecord \<Rightarrow> 'hw world \<Rightarrow> long \<times> boRecord \<times> 'hw world" where
  "write_bo X pbo w =
     (let pvmeio = value (boRecord.out pbo);
          (status, w') =
             hpe1368a_bo_driver X (vmeio.card pvmeio) (boRecord.rval pbo) (boRecord.mask pbo) w
      in if status \<noteq> 0 then (status, recGblSetSevr pbo WRITE_ALARM INVALID_ALARM, w')
         else (status, pbo, w'))"

subsection \<open>Multi-bit binary input\<close>

definition init_mbbi ::
  "'hw externals \<Rightarrow> mbbiRecord \<Rightarrow> 'hw world \<Rightarrow> (long \<times> mbbiRecord \<times> 'hw world) option" where
  "init_mbbi X pmbbi w =
     (if type (mbbiRecord.inp pmbbi) = VME_IO X then
        (let pmbbi1 = pmbbi\<lparr>mbbiRecord.shft := signal (value (mbbiRecord.inp pmbbi))\<rparr>
         in case shift_left_assign (mbbiRecord.mask pmbbi1) (uint (mbbiRecord.shft pmbbi1)) of
              None \<Rightarrow> None
            | Some m \<Rightarrow> Some (0, pmbbi1\<lparr>mbbiRecord.mask := m\<rparr>, w))
      else
        Some (S_db_badField X, pmbbi,
              recGblRecordError (S_db_badField X)
                ''devMbbiHpe1368a (init_record) Illegal INP field'' w))"

definition read_mbbi ::
  "'hw externals \<Rightarrow> mbbiRecord \<Rightarrow> 'hw world \<Rightarrow> long \<times> mbbiRecord \<times> 'hw world" where
  "read_mbbi X pmbbi w =
     (let pvmeio = value (mbbiRecord.inp pmbbi);
          ((status, v), w') =
             hpe1368a_bi_driver X (vmeio.card pvmeio) (mbbiRecord.mask pmbbi) w
      in if status = 0 then (status, pmbbi\<lparr>mbbiRecord.rval := v\<rparr>, w')
         else (status, recGblSetSevr pmbbi READ_ALARM INVALID_ALARM, w'))"

subsection \<open>Multi-bit binary output\<close>

definition init_mbbo ::
  "'hw externals \<Rightarrow> mbboRecord \<Rightarrow> 'hw world \<Rightarrow> (long \<times> mbboRecord \<times> 'hw world) option" where
  "init_mbbo X pmbbo w =
     (if type (mbboRecord.out pmbbo) = VME_IO X then
        (let pvmeio = value (mbboRecord.out pmbbo);
             pmbbo1 = pmbbo\<lparr>mbboRecord.shft := signal pvmeio\<rparr>
         in case shift_left_assign (mbboRecord.mask pmbbo1) (uint (mbboRecord.shft pmbbo1)) of
              None \<Rightarrow> None
            | Some m \<Rightarrow>
                (let pmbbo2 = pmbbo1\<lparr>mbboRecord.mask := m\<rparr>;
                     ((status, v), w') =
                        hpe1368a_bi_driver X (vmeio.card pvmeio) (mbboRecord.mask pmbbo2) w
                 in if status = 0
                    then Some (status, pmbbo2\<lparr>mbboRecord.rval := v, mbboRecord.rbv := v\<rparr>, w')
                    else Some (status, pmbbo2, w')))
      else
        (let status = S_db_badField X
         in Some (status, pmbbo,
                  recGblRecordError status
                    ''devMbboHpe1368a (init_record) Illegal OUT field'' w)))"

definition write_mbbo ::
  "'hw externals \<Rightarrow> mbboRecord \<Rightarrow> 'hw world \<Rightarrow> long \<times> mbboRecord \<times> 'hw world" where
  "write_mbbo X pmbbo w =
     (let pvmeio = value (mbboRecord.out pmbbo);
          (status, w1) =
             hpe1368a_bo_driver X (vmeio.card pvmeio) (mbboRecord.rval pmbbo)
               (mbboRecord.mask pmbbo) w
      in if status = 0 then
           (let ((status, v), w2) =
                  hpe1368a_bi_driver X (vmeio.card pvmeio) (mbboRecord.mask pmbbo) w1
            in if status = 0 then (status, pmbbo\<lparr>mbboRecord.rbv := v\<rparr>, w2)
               else (status, recGblSetSevr pmbbo READ_ALARM INVALID_ALARM, w2))
         else (status, recGblSetSevr pmbbo WRITE_ALARM INVALID_ALARM, w1))"

subsection \<open>A scripted driver and sample records\<close>

text \<open>
  Concrete instances for the examples below. The hardware of the scripted driver is the
  list of replies it still has to give: each driver call takes the first one (a read
  gives its status and value, a write its status) and an empty script answers with
  status 0. Its \<open>VME_IO\<close> and \<open>S_db_badField\<close> are stand-in values. \<open>quiet\<close> is a
  world in which nothing has been called or reported yet.
\<close>

type_synonym script = "(long \<times> unsigned) list"

definition scripted_bi :: "short \<Rightarrow> ulong \<Rightarrow> script \<Rightarrow> (long \<times> unsigned) \<times> script" where
  "scripted_bi c m h = (case h of [] \<Rightarrow> ((0, 0), []) | r # rs \<Rightarrow> (r, rs))"

definition scripted_bo :: "short \<Rightarrow> ulong \<Rightarrow> ulong \<Rightarrow> script \<Rightarrow> long \<times> script" where
  "scripted_bo c v m h = (case h of [] \<Rightarrow> (0, []) | r # rs \<Rightarrow> (fst r, rs))"

definition scripted :: "script externals" where
  "scripted = \<lparr>VME_IO = 2, S_db_badField = 15, bi_driver = scripted_bi, bo_driver = scripted_bo\<rparr>"

definition quiet :: "script \<Rightarrow> script world" where
  "quiet h = \<lparr>hw = h, driver_calls = [], errors = []\<rparr>"

definition link_of :: "short \<Rightarrow> short \<Rightarrow> short \<Rightarrow> link" where
  "link_of t c s = \<lparr>type = t, value = \<lparr>card = c, signal = s\<rparr>\<rparr>"

definition bi_of :: "link \<Rightarrow> ulong \<Rightarrow> biRecord" where
  "bi_of l m = \<lparr>alarms = [], biRecord.inp = l, biRecord.mask = m, biRecord.rval = 0\<rparr>"

definition bo_of :: "link \<Rightarrow> ulong \<Rightarrow> ulong \<Rightarrow> boRecord" where
  "bo_of l m v =
     \<lparr>alarms = [], boRecord.out = l, boRecord.mask = m, boRecord.rval = v, boRecord.rbv = 0\<rparr>"

definition mbbi_of :: "link \<Rightarrow> ulong \<Rightarrow> ushort \<Rightarrow> mbbiRecord" where
  "mbbi_of l m sh =
     \<lparr>alarms = [], mbbiRecord.inp = l, mbbiRecord.mask = m, mbbiRecord.shft = sh,
      mbbiRecord.rval = 0\<rparr>"

definition mbbo_of :: "link \<Rightarrow> ulong \<Rightarrow> ushort \<Rightarrow> ulong \<Rightarrow> mbboRecord" where
  "mbbo_of l m sh v =
     \<lparr>alarms = [], mbboRecord.out = l, mbboRecord.mask = m, mbboRecord.shft = sh,
      mbboRecord.rval = v, mbboRecord.rbv = 0\<rparr>"

lemmas example_defs =
  scripted_def scripted_bi_def scripted_bo_def quiet_def link_of_def bi_of_def bo_of_def
  mbbi_of_def mbbo_of_def

lemmas routine_defs =
  init_bi_def read_bi_def init_bo_def write_bo_def init_mbbi_def read_mbbi_def init_mbbo_def
  write_mbbo_def hpe1368a_bi_driver_def hpe1368a_bo_driver_def recGblRecordError_def
  recGblSetSevr_def shift_left_assign_def valid_signal_def

section \<open>Properties\<close>

subsection \<open>Shifts by a valid signal number\<close>

lemma valid_signal_uint: "valid_signal s \<Longrightarrow> uint s = sint s"
proof -
  assume v: "valid_signal s"
  then have b: "0 \<le> sint s" "sint s < 2 ^ 16" by (simp_all add: valid_signal_def)
  have "uint s = uint (word_of_int (sint s) :: 16 word)" by simp
  also have "\<dots> = take_bit LENGTH(16) (sint s)" by (rule uint_word_of_int_eq)
  also have "\<dots> = sint s" using b by (simp add: take_bit_int_eq_self)
  finally show ?thesis .
qed

lemma shift_left_assign_sint:
  "valid_signal s \<Longrightarrow> shift_left_assign m (sint s) = Some (push_bit (nat (sint s)) m)"
  by (simp add: shift_left_assign_def valid_signal_def)

lemma shift_left_assign_uint:
  "valid_signal s \<Longrightarrow> shift_left_assign m (uint s) = Some (push_bit (nat (sint s)) m)"
  by (simp add: shift_left_assign_def valid_signal_def valid_signal_uint)

subsection \<open>The driver calls and the init routines on a VME link\<close>

lemma hpe1368a_bi_driver_eq:
  "bi_driver X c m (hw w) = (r, h) \<Longrightarrow>
   hpe1368a_bi_driver X c m w =
     (r, w\<lparr>hw := h, driver_calls := driver_calls w @ [Bi_driver_call c m]\<rparr>)"
  by (simp add: hpe1368a_bi_driver_def)

lemma hpe1368a_bo_driver_eq:
  "bo_driver X c v m (hw w) = (status, h) \<Longrightarrow>
   hpe1368a_bo_driver X c v m w =
     (status, w\<lparr>hw := h, driver_calls := driver_calls w @ [Bo_driver_call c v m]\<rparr>)"
  by (simp add: hpe1368a_bo_driver_def)

lemma init_bi_VME_IO:
  assumes "type (biRecord.inp pbi) = VME_IO X"
    and "valid_signal (signal (value (biRecord.inp pbi)))"
  shows "init_bi X pbi w =
    Some (0, pbi\<lparr>biRecord.mask := push_bit (nat (sint (signal (value (biRecord.inp pbi))))) 1\<rparr>, w)"
  using assms by (simp add: init_bi_def shift_left_assign_sint)

lemma init_bo_VME_IO:
  assumes "type (boRecord.out pbo) = VME_IO X"
    and "value (boRecord.out pbo) = \<lparr>card = c, signal = s\<rparr>"
    and "valid_signal s"
    and "bi_driver X c (push_bit (nat (sint s)) 1) (hw w) = ((status, v), h)"
  shows "init_bo X pbo w =
    Some (status,
      (if status = 0
       then pbo\<lparr>boRecord.mask := push_bit (nat (sint s)) 1, boRecord.rval := v, boRecord.rbv := v\<rparr>
       else pbo\<lparr>boRecord.mask := push_bit (nat (sint s)) 1\<rparr>),
      w\<lparr>hw := h,
        driver_calls := driver_calls w @ [Bi_driver_call c (push_bit (nat (sint s)) 1)]\<rparr>)"
  using assms by (simp add: init_bo_def shift_left_assign_sint hpe1368a_bi_driver_eq)

lemma init_mbbi_VME_IO:
  assumes "type (mbbiRecord.inp pmbbi) = VME_IO X"
    and "signal (value (mbbiRecord.inp pmbbi)) = s"
    and "valid_signal s"
  shows "init_mbbi X pmbbi w =
    Some (0, pmbbi\<lparr>mbbiRecord.shft := s,
                  mbbiRecord.mask := push_bit (nat (sint s)) (mbbiRecord.mask pmbbi)\<rparr>, w)"
  using assms by (simp add: init_mbbi_def shift_left_assign_uint)

lemma init_mbbo_VME_IO:
  assumes "type (mbboRecord.out pmbbo) = VME_IO X"
    and "value (mbboRecord.out pmbbo) = \<lparr>card = c, signal = s\<rparr>"
    and "valid_signal s"
    and "bi_driver X c (push_bit (nat (sint s)) (mbboRecord.mask pmbbo)) (hw w) = ((status, v), h)"
  shows "init_mbbo X pmbbo w =
    Some (status,
      (if status = 0
       then pmbbo\<lparr>mbboRecord.shft := s,
                  mbboRecord.mask := push_bit (nat (sint s)) (mbboRecord.mask pmbbo),
                  mbboRecord.rval := v, mbboRecord.rbv := v\<rparr>
       else pmbbo\<lparr>mbboRecord.shft := s,
                  mbboRecord.mask := push_bit (nat (sint s)) (mbboRecord.mask pmbbo)\<rparr>),
      w\<lparr>hw := h,
        driver_calls := driver_calls w @
          [Bi_driver_call c (push_bit (nat (sint s)) (mbboRecord.mask pmbbo))]\<rparr>)"
  using assms by (simp add: init_mbbo_def shift_left_assign_uint hpe1368a_bi_driver_eq)


subsection \<open>Initialization\<close>

text \<open>
  C3. For every valid signal number \<open>s\<close> (a shift count that C defines, 0 to 31),
  initializing a binary input or binary output record whose link is VME I/O with signal
  \<open>s\<close> stores the mask \<open>1 << s\<close> on the record, and \<open>init_bi\<close> returns status 0
  (changing nothing else).
\<close>

theorem init_binary_mask:
  assumes "valid_signal s"
  shows "(type (biRecord.inp pbi) = VME_IO X \<and> signal (value (biRecord.inp pbi)) = s \<longrightarrow>
            init_bi X pbi w = Some (0, pbi\<lparr>biRecord.mask := push_bit (nat (sint s)) 1\<rparr>, w))
       \<and> (type (boRecord.out pbo) = VME_IO X \<and> signal (value (boRecord.out pbo)) = s \<longrightarrow>
            (\<exists>status pbo' w'. init_bo X pbo wo = Some (status, pbo', w')
               \<and> boRecord.mask pbo' = push_bit (nat (sint s)) 1))"
proof (intro conjI impI)
  assume "type (biRecord.inp pbi) = VME_IO X \<and> signal (value (biRecord.inp pbi)) = s"
  with assms show "init_bi X pbi w = Some (0, pbi\<lparr>biRecord.mask := push_bit (nat (sint s)) 1\<rparr>, w)"
    using init_bi_VME_IO [of pbi X w] by simp
next
  assume a: "type (boRecord.out pbo) = VME_IO X \<and> signal (value (boRecord.out pbo)) = s"
  obtain status v h where
    d: "bi_driver X (vmeio.card (value (boRecord.out pbo))) (push_bit (nat (sint s)) 1) (hw wo)
          = ((status, v), h)"
    by (metis surj_pair)
  from a have "value (boRecord.out pbo) = \<lparr>card = vmeio.card (value (boRecord.out pbo)), signal = s\<rparr>"
    by auto
  from init_bo_VME_IO [OF _ this assms d] a
  show "\<exists>status pbo' w'. init_bo X pbo wo = Some (status, pbo', w')
          \<and> boRecord.mask pbo' = push_bit (nat (sint s)) 1"
    by (cases "status = 0") simp_all
qed

theorem init_binary_mask_witness:
  "valid_signal 3
   \<and> type (biRecord.inp (bi_of (link_of 2 2 3) 0)) = VME_IO scripted
   \<and> signal (value (biRecord.inp (bi_of (link_of 2 2 3) 0))) = 3
   \<and> init_bi scripted (bi_of (link_of 2 2 3) 0) (quiet []) =
        Some (0, bi_of (link_of 2 2 3) 8, quiet [])
   \<and> type (boRecord.out (bo_of (link_of 2 2 3) 0 0)) = VME_IO scripted
   \<and> signal (value (boRecord.out (bo_of (link_of 2 2 3) 0 0))) = 3
   \<and> (\<exists>status pbo' w'.
         init_bo scripted (bo_of (link_of 2 2 3) 0 0) (quiet [(0, 8)]) = Some (status, pbo', w')
         \<and> boRecord.mask pbo' = 8)"
  using init_binary_mask [where s = 3 and X = scripted
      and pbi = "bi_of (link_of 2 2 3) 0" and w = "quiet []"
      and pbo = "bo_of (link_of 2 2 3) 0 0" and wo = "quiet [(0, 8)]"]
  by (simp add: example_defs valid_signal_def)

text \<open>
  C4. For every valid signal number \<open>s\<close>, initializing a multi-bit binary input or output
  record whose link is VME I/O with signal \<open>s\<close> stores shift \<open>s\<close> (the same bits, and
  the same number) and the mask \<open>original_mask << s\<close>, where \<open>original_mask\<close> is the
  mask of the record before initialization.
\<close>

theorem init_multibit_shift_mask:
  assumes "valid_signal s"
  shows "(type (mbbiRecord.inp pmbbi) = VME_IO X \<and> signal (value (mbbiRecord.inp pmbbi)) = s \<longrightarrow>
            (\<exists>status pmbbi' w'. init_mbbi X pmbbi w = Some (status, pmbbi', w')
               \<and> mbbiRecord.shft pmbbi' = s \<and> uint (mbbiRecord.shft pmbbi') = sint s
               \<and> mbbiRecord.mask pmbbi' = push_bit (nat (sint s)) (mbbiRecord.mask pmbbi)))
       \<and> (type (mbboRecord.out pmbbo) = VME_IO X \<and> signal (value (mbboRecord.out pmbbo)) = s \<longrightarrow>
            (\<exists>status pmbbo' w'. init_mbbo X pmbbo wo = Some (status, pmbbo', w')
               \<and> mbboRecord.shft pmbbo' = s \<and> uint (mbboRecord.shft pmbbo') = sint s
               \<and> mbboRecord.mask pmbbo' = push_bit (nat (sint s)) (mbboRecord.mask pmbbo)))"
proof (intro conjI impI)
  assume "type (mbbiRecord.inp pmbbi) = VME_IO X \<and> signal (value (mbbiRecord.inp pmbbi)) = s"
  with assms show "\<exists>status pmbbi' w'. init_mbbi X pmbbi w = Some (status, pmbbi', w')
      \<and> mbbiRecord.shft pmbbi' = s \<and> uint (mbbiRecord.shft pmbbi') = sint s
      \<and> mbbiRecord.mask pmbbi' = push_bit (nat (sint s)) (mbbiRecord.mask pmbbi)"
    using init_mbbi_VME_IO [of pmbbi X s w] by (simp add: valid_signal_uint)
next
  assume a: "type (mbboRecord.out pmbbo) = VME_IO X \<and> signal (value (mbboRecord.out pmbbo)) = s"
  obtain status v h where
    d: "bi_driver X (vmeio.card (value (mbboRecord.out pmbbo)))
          (push_bit (nat (sint s)) (mbboRecord.mask pmbbo)) (hw wo) = ((status, v), h)"
    by (metis surj_pair)
  from a have "value (mbboRecord.out pmbbo) =
      \<lparr>card = vmeio.card (value (mbboRecord.out pmbbo)), signal = s\<rparr>"
    by auto
  from init_mbbo_VME_IO [OF _ this assms d] a assms
  show "\<exists>status pmbbo' w'. init_mbbo X pmbbo wo = Some (status, pmbbo', w')
      \<and> mbboRecord.shft pmbbo' = s \<and> uint (mbboRecord.shft pmbbo') = sint s
      \<and> mbboRecord.mask pmbbo' = push_bit (nat (sint s)) (mbboRecord.mask pmbbo)"
    by (cases "status = 0") (simp_all add: valid_signal_uint)
qed

theorem init_multibit_shift_mask_witness:
  "valid_signal 4
   \<and> type (mbbiRecord.inp (mbbi_of (link_of 2 2 4) 7 0)) = VME_IO scripted
   \<and> signal (value (mbbiRecord.inp (mbbi_of (link_of 2 2 4) 7 0))) = 4
   \<and> (\<exists>status pmbbi' w'.
         init_mbbi scripted (mbbi_of (link_of 2 2 4) 7 0) (quiet []) = Some (status, pmbbi', w')
         \<and> mbbiRecord.shft pmbbi' = 4 \<and> mbbiRecord.mask pmbbi' = 0x70)
   \<and> type (mbboRecord.out (mbbo_of (link_of 2 2 4) 7 0 0)) = VME_IO scripted
   \<and> signal (value (mbboRecord.out (mbbo_of (link_of 2 2 4) 7 0 0))) = 4
   \<and> (\<exists>status pmbbo' w'.
         init_mbbo scripted (mbbo_of (link_of 2 2 4) 7 0 0) (quiet [(9, 0)]) =
           Some (status, pmbbo', w')
         \<and> mbboRecord.shft pmbbo' = 4 \<and> mbboRecord.mask pmbbo' = 0x70)"
  using init_multibit_shift_mask [where s = 4 and X = scripted
      and pmbbi = "mbbi_of (link_of 2 2 4) 7 0" and w = "quiet []"
      and pmbbo = "mbbo_of (link_of 2 2 4) 7 0 0" and wo = "quiet [(9, 0)]"]
  by (simp add: example_defs routine_defs)

text \<open>
  C5. For a record of any of the four kinds whose link type is not VME I/O, the init
  routine of its kind returns \<open>S_db_badField\<close> and gives the record back as it was:
  neither the mask nor, for the multi-bit kinds, the shift is modified.
\<close>

theorem init_not_VME_IO:
  "(type (biRecord.inp pbi) \<noteq> VME_IO X \<longrightarrow>
      (\<exists>w'. init_bi X pbi wa = Some (S_db_badField X, pbi, w')))
   \<and> (type (boRecord.out pbo) \<noteq> VME_IO X \<longrightarrow>
      (\<exists>w'. init_bo X pbo wb = Some (S_db_badField X, pbo, w')))
   \<and> (type (mbbiRecord.inp pmbbi) \<noteq> VME_IO X \<longrightarrow>
      (\<exists>w'. init_mbbi X pmbbi wc = Some (S_db_badField X, pmbbi, w')))
   \<and> (type (mbboRecord.out pmbbo) \<noteq> VME_IO X \<longrightarrow>
      (\<exists>w'. init_mbbo X pmbbo wd = Some (S_db_badField X, pmbbo, w')))"
  by (simp add: init_bi_def init_bo_def init_mbbi_def init_mbbo_def Let_def)

theorem init_not_VME_IO_witness:
  "type (biRecord.inp (bi_of (link_of 0 2 3) 5)) \<noteq> VME_IO scripted
   \<and> (\<exists>w'. init_bi scripted (bi_of (link_of 0 2 3) 5) (quiet []) =
          Some (15, bi_of (link_of 0 2 3) 5, w'))
   \<and> type (boRecord.out (bo_of (link_of 1 2 3) 5 1)) \<noteq> VME_IO scripted
   \<and> (\<exists>w'. init_bo scripted (bo_of (link_of 1 2 3) 5 1) (quiet []) =
          Some (15, bo_of (link_of 1 2 3) 5 1, w'))
   \<and> type (mbbiRecord.inp (mbbi_of (link_of 3 2 4) 7 9)) \<noteq> VME_IO scripted
   \<and> (\<exists>w'. init_mbbi scripted (mbbi_of (link_of 3 2 4) 7 9) (quiet []) =
          Some (15, mbbi_of (link_of 3 2 4) 7 9, w'))
   \<and> type (mbboRecord.out (mbbo_of (link_of 4 2 4) 7 9 1)) \<noteq> VME_IO scripted
   \<and> (\<exists>w'. init_mbbo scripted (mbbo_of (link_of 4 2 4) 7 9 1) (quiet []) =
          Some (15, mbbo_of (link_of 4 2 4) 7 9 1, w'))"
  using init_not_VME_IO [where X = scripted
      and pbi = "bi_of (link_of 0 2 3) 5" and wa = "quiet []"
      and pbo = "bo_of (link_of 1 2 3) 5 1" and wb = "quiet []"
      and pmbbi = "mbbi_of (link_of 3 2 4) 7 9" and wc = "quiet []"
      and pmbbo = "mbbo_of (link_of 4 2 4) 7 9 1" and wd = "quiet []"]
  by (simp add: example_defs routine_defs)

text \<open>
  C7. For every binary input record whose link type is not VME I/O, \<open>init_bi\<close> returns
  \<open>S_db_badField\<close>, reports exactly one error with \<open>recGblRecordError\<close>, and makes no
  driver call (the driver calls made and the hardware are as before).
\<close>

theorem init_bi_not_VME_IO_effects:
  assumes "type (biRecord.inp pbi) \<noteq> VME_IO X"
  shows "\<exists>w'. init_bi X pbi w = Some (S_db_badField X, pbi, w')
           \<and> errors w' = errors w @
                [(S_db_badField X, ''devBiHpe1368a (init_record) Illegal INP field'')]
           \<and> length (errors w') = length (errors w) + 1
           \<and> driver_calls w' = driver_calls w
           \<and> hw w' = hw w"
  using assms by (simp add: init_bi_def recGblRecordError_def)

theorem init_bi_not_VME_IO_effects_witness:
  "type (biRecord.inp (bi_of (link_of 0 2 3) 5)) \<noteq> VME_IO scripted
   \<and> (\<exists>w'. init_bi scripted (bi_of (link_of 0 2 3) 5) (quiet [(0, 1)]) =
               Some (15, bi_of (link_of 0 2 3) 5, w')
           \<and> errors w' = [(15, ''devBiHpe1368a (init_record) Illegal INP field'')]
           \<and> driver_calls w' = []
           \<and> hw w' = [(0, 1)])"
  using init_bi_not_VME_IO_effects [where X = scripted
      and pbi = "bi_of (link_of 0 2 3) 5" and w = "quiet [(0, 1)]"]
  by (simp add: example_defs routine_defs)







subsection \<open>Reading\<close>

text \<open>
  C6. \<open>read_bi\<close> and \<open>read_mbbi\<close> return the status of \<open>hpe1368a_bi_driver\<close> unchanged.
  If that status is 0 the raw value becomes exactly the value the driver gave and no
  alarm is raised (no other field changes); if it is not 0 the raw value is left as it
  was and a read alarm of invalid severity is raised. This holds for every record, so
  for every record in the Bound state.
\<close>

theorem read_input_status:
  "(bi_driver X (vmeio.card (value (biRecord.inp pbi))) (biRecord.mask pbi) (hw w)
      = ((status, v), h) \<longrightarrow>
      (\<exists>w'. read_bi X pbi w =
         (status,
          (if status = 0 then pbi\<lparr>biRecord.rval := v\<rparr>
           else pbi\<lparr>alarms := alarms pbi @ [(READ_ALARM, INVALID_ALARM)]\<rparr>),
          w')))
   \<and> (bi_driver X (vmeio.card (value (mbbiRecord.inp pmbbi))) (mbbiRecord.mask pmbbi) (hw wm)
      = ((statusm, vm), hm) \<longrightarrow>
      (\<exists>w'. read_mbbi X pmbbi wm =
         (statusm,
          (if statusm = 0 then pmbbi\<lparr>mbbiRecord.rval := vm\<rparr>
           else pmbbi\<lparr>alarms := alarms pmbbi @ [(READ_ALARM, INVALID_ALARM)]\<rparr>),
          w')))"
  by (simp add: read_bi_def read_mbbi_def hpe1368a_bi_driver_eq recGblSetSevr_def)

theorem read_input_status_witness:
  "bi_driver scripted (vmeio.card (value (biRecord.inp (bi_of (link_of 2 2 3) 8))))
      (biRecord.mask (bi_of (link_of 2 2 3) 8)) (hw (quiet [(0, 8)])) = ((0, 8), [])
   \<and> read_bi scripted (bi_of (link_of 2 2 3) 8) (quiet [(0, 8)]) =
        (0, (bi_of (link_of 2 2 3) 8)\<lparr>biRecord.rval := 8\<rparr>,
         \<lparr>hw = [], driver_calls = [Bi_driver_call 2 8], errors = []\<rparr>)
   \<and> bi_driver scripted (vmeio.card (value (mbbiRecord.inp (mbbi_of (link_of 2 2 4) 0x70 4))))
      (mbbiRecord.mask (mbbi_of (link_of 2 2 4) 0x70 4)) (hw (quiet [(7, 0x50)]))
        = ((7, 0x50), [])
   \<and> read_mbbi scripted (mbbi_of (link_of 2 2 4) 0x70 4) (quiet [(7, 0x50)]) =
        (7, (mbbi_of (link_of 2 2 4) 0x70 4)\<lparr>alarms := [(READ_ALARM, INVALID_ALARM)]\<rparr>,
         \<lparr>hw = [], driver_calls = [Bi_driver_call 2 0x70], errors = []\<rparr>)"
  using read_input_status [where X = scripted
      and pbi = "bi_of (link_of 2 2 3) 8" and w = "quiet [(0, 8)]"
      and status = 0 and v = 8 and h = "[]"
      and pmbbi = "mbbi_of (link_of 2 2 4) 0x70 4" and wm = "quiet [(7, 0x50)]"
      and statusm = 7 and vm = "0x50" and hm = "[]"]
  by (simp add: example_defs routine_defs)

text \<open>
  C2 says that the raw value becomes 1 when the driver returns (0, 0x08) for card 2 and
  mask 0x08. \<open>read_bi\<close> stores the value of the driver as it is: the raw value is 0x08.
\<close>

theorem rval_becomes_one_counterexample:
  "init_bi scripted (bi_of (link_of 2 2 3) 0) (quiet [(0, 0x08)]) =
     Some (0, bi_of (link_of 2 2 3) 0x08, quiet [(0, 0x08)])
   \<and> bi_driver scripted 2 0x08 (hw (quiet [(0, 0x08)])) = ((0, 0x08), [])
   \<and> biRecord.rval (fst (snd (read_bi scripted (bi_of (link_of 2 2 3) 0x08)
        (quiet [(0, 0x08)])))) = 0x08
   \<and> biRecord.rval (fst (snd (read_bi scripted (bi_of (link_of 2 2 3) 0x08)
        (quiet [(0, 0x08)])))) \<noteq> 1"
  by (simp add: example_defs routine_defs)

text \<open>
  C2, amended. For a binary input record whose link is VME I/O with card 2 and signal 3,
  \<open>init_bi\<close> returns 0 and the mask is 0x08; when \<open>hpe1368a_bi_driver\<close> then returns
  status 0 and value 0x08 for card 2 and mask 0x08, \<open>read_bi\<close> returns 0, the raw value
  becomes 0x08 (not zero: the bit is present) and no alarm is raised.
\<close>

theorem bi_card2_signal3:
  assumes "type (biRecord.inp pbi) = VME_IO X"
    and "value (biRecord.inp pbi) = \<lparr>card = 2, signal = 3\<rparr>"
  shows "init_bi X pbi w = Some (0, pbi\<lparr>biRecord.mask := 0x08\<rparr>, w)
       \<and> (bi_driver X 2 0x08 (hw wr) = ((0, 0x08), h) \<longrightarrow>
           (\<exists>pbi' w'. read_bi X (pbi\<lparr>biRecord.mask := 0x08\<rparr>) wr = (0, pbi', w')
              \<and> biRecord.rval pbi' = 0x08
              \<and> alarms pbi' = alarms pbi))"
  using assms
  by (simp add: init_bi_def shift_left_assign_def read_bi_def hpe1368a_bi_driver_eq)

theorem bi_card2_signal3_witness:
  "type (biRecord.inp (bi_of (link_of 2 2 3) 0)) = VME_IO scripted
   \<and> value (biRecord.inp (bi_of (link_of 2 2 3) 0)) = \<lparr>card = 2, signal = 3\<rparr>
   \<and> init_bi scripted (bi_of (link_of 2 2 3) 0) (quiet [(0, 0x08)]) =
       Some (0, bi_of (link_of 2 2 3) 0x08, quiet [(0, 0x08)])
   \<and> bi_driver scripted 2 0x08 (hw (quiet [(0, 0x08)])) = ((0, 0x08), [])
   \<and> read_bi scripted (bi_of (link_of 2 2 3) 0x08) (quiet [(0, 0x08)]) =
       (0, (bi_of (link_of 2 2 3) 0x08)\<lparr>biRecord.rval := 0x08\<rparr>,
        \<lparr>hw = [], driver_calls = [Bi_driver_call 2 0x08], errors = []\<rparr>)"
  using bi_card2_signal3 [where X = scripted and pbi = "bi_of (link_of 2 2 3) 0"
      and w = "quiet [(0, 0x08)]" and wr = "quiet [(0, 0x08)]" and h = "[]"]
  by (simp add: example_defs routine_defs)

subsection \<open>Writing\<close>

text \<open>
  C9. \<open>write_bo\<close> returns the status of \<open>hpe1368a_bo_driver\<close> unchanged and never
  modifies \<open>rval\<close>, \<open>rbv\<close>, \<open>mask\<close> or the link: on status 0 the record is as before, on
  any other status the only change is a write alarm of invalid severity. This holds for
  every record, so for every record in the Bound state.
\<close>

theorem write_bo_frame:
  assumes "bo_driver X (vmeio.card (value (boRecord.out pbo))) (boRecord.rval pbo)
             (boRecord.mask pbo) (hw w) = (status, h)"
  shows "\<exists>pbo' w'. write_bo X pbo w = (status, pbo', w')
           \<and> boRecord.rval pbo' = boRecord.rval pbo
           \<and> boRecord.rbv pbo' = boRecord.rbv pbo
           \<and> boRecord.mask pbo' = boRecord.mask pbo
           \<and> boRecord.out pbo' = boRecord.out pbo
           \<and> (status = 0 \<longrightarrow> pbo' = pbo)
           \<and> (status \<noteq> 0 \<longrightarrow>
                pbo' = pbo\<lparr>alarms := alarms pbo @ [(WRITE_ALARM, INVALID_ALARM)]\<rparr>)"
  using assms by (simp add: write_bo_def hpe1368a_bo_driver_eq recGblSetSevr_def)

theorem write_bo_frame_witness:
  "bo_driver scripted (vmeio.card (value (boRecord.out (bo_of (link_of 2 2 3) 8 8))))
      (boRecord.rval (bo_of (link_of 2 2 3) 8 8)) (boRecord.mask (bo_of (link_of 2 2 3) 8 8))
      (hw (quiet [(4, 0)])) = (4, [])
   \<and> write_bo scripted (bo_of (link_of 2 2 3) 8 8) (quiet [(4, 0)]) =
        (4, (bo_of (link_of 2 2 3) 8 8)\<lparr>alarms := [(WRITE_ALARM, INVALID_ALARM)]\<rparr>,
         \<lparr>hw = [], driver_calls = [Bo_driver_call 2 8 8], errors = []\<rparr>)"
  using write_bo_frame [where X = scripted
      and pbo = "bo_of (link_of 2 2 3) 8 8" and w = "quiet [(4, 0)]" and status = 4 and h = "[]"]
  by (simp add: example_defs routine_defs)

text \<open>
  C1 says that \<open>write_mbbo\<close> still returns a success status when the write succeeds and
  the read that follows it fails. It does not: \<open>status\<close> is assigned the result of the
  read and returned. A multi-bit output record bound to card 2, signal 4 with mask 7,
  a write that returns 0 and a read that returns 5: \<open>write_mbbo\<close> returns 5.
\<close>

theorem write_mbbo_readback_status_counterexample:
  "init_mbbo scripted (mbbo_of (link_of 2 2 4) 7 0 0) (quiet [(0, 0x30)]) =
     Some (0, (mbbo_of (link_of 2 2 4) 0x70 4 0x30)\<lparr>mbboRecord.rbv := 0x30\<rparr>,
           \<lparr>hw = [], driver_calls = [Bi_driver_call 2 0x70], errors = []\<rparr>)
   \<and> bo_driver scripted 2 0x30 0x70 [(0, 0), (5, 0)] = (0, [(5, 0)])
   \<and> bi_driver scripted 2 0x70 [(5, 0)] = ((5, 0), [])
   \<and> write_mbbo scripted ((mbbo_of (link_of 2 2 4) 0x70 4 0x30)\<lparr>mbboRecord.rbv := 0x30\<rparr>)
        (quiet [(0, 0), (5, 0)]) =
      (5, (mbbo_of (link_of 2 2 4) 0x70 4 0x30)
            \<lparr>mbboRecord.rbv := 0x30, alarms := [(READ_ALARM, INVALID_ALARM)]\<rparr>,
       \<lparr>hw = [], driver_calls = [Bo_driver_call 2 0x30 0x70, Bi_driver_call 2 0x70],
         errors = []\<rparr>)
   \<and> fst (write_mbbo scripted
             ((mbbo_of (link_of 2 2 4) 0x70 4 0x30)\<lparr>mbboRecord.rbv := 0x30\<rparr>)
             (quiet [(0, 0), (5, 0)])) \<noteq> 0"
  by (simp add: example_defs routine_defs)

text \<open>
  C1, amended. If \<open>hpe1368a_bo_driver\<close> returns status 0 and the call of
  \<open>hpe1368a_bi_driver\<close> that follows it (same card, same mask) returns a nonzero status,
  then \<open>write_mbbo\<close> raises a read alarm of invalid severity, changes nothing else on the
  record, and returns the nonzero status of the read.
\<close>

theorem write_mbbo_readback_failure:
  assumes "bo_driver X (vmeio.card (value (mbboRecord.out pmbbo))) (mbboRecord.rval pmbbo)
             (mbboRecord.mask pmbbo) (hw w) = (0, h)"
    and "bi_driver X (vmeio.card (value (mbboRecord.out pmbbo))) (mbboRecord.mask pmbbo) h
           = ((status, v), hr)"
    and "status \<noteq> 0"
  shows "\<exists>w'. write_mbbo X pmbbo w =
           (status, pmbbo\<lparr>alarms := alarms pmbbo @ [(READ_ALARM, INVALID_ALARM)]\<rparr>, w')"
  using assms
  by (simp add: write_mbbo_def hpe1368a_bo_driver_eq hpe1368a_bi_driver_eq recGblSetSevr_def
      Let_def)

theorem write_mbbo_readback_failure_witness:
  "bo_driver scripted (vmeio.card (value (mbboRecord.out (mbbo_of (link_of 2 2 4) 0x70 4 0x30))))
      (mbboRecord.rval (mbbo_of (link_of 2 2 4) 0x70 4 0x30))
      (mbboRecord.mask (mbbo_of (link_of 2 2 4) 0x70 4 0x30)) (hw (quiet [(0, 0), (5, 0)]))
      = (0, [(5, 0)])
   \<and> bi_driver scripted (vmeio.card (value (mbboRecord.out (mbbo_of (link_of 2 2 4) 0x70 4 0x30))))
      (mbboRecord.mask (mbbo_of (link_of 2 2 4) 0x70 4 0x30)) [(5, 0)] = ((5, 0), [])
   \<and> (5 :: long) \<noteq> 0
   \<and> (\<exists>w'. write_mbbo scripted (mbbo_of (link_of 2 2 4) 0x70 4 0x30) (quiet [(0, 0), (5, 0)]) =
         (5, (mbbo_of (link_of 2 2 4) 0x70 4 0x30)\<lparr>alarms := [(READ_ALARM, INVALID_ALARM)]\<rparr>,
          w'))"
  using write_mbbo_readback_failure [where X = scripted
      and pmbbo = "mbbo_of (link_of 2 2 4) 0x70 4 0x30" and w = "quiet [(0, 0), (5, 0)]"
      and h = "[(5, 0)]" and status = 5 and v = 0 and hr = "[]"]
  by (simp add: example_defs routine_defs)

end
